theory Spec2Isabelle
  imports Main
begin

section \<open>Python primitives used by \<^verbatim>\<open>recon/masscan.py\<close>\<close>

text \<open>
  \<^verbatim>\<open>str(x)\<close> on a Python integer is its decimal numeral, with a leading minus sign for
  a negative number and no leading zeros.
\<close>

definition digit_chr :: "nat \<Rightarrow> char" where
  "digit_chr d = ''0123456789'' ! d"

fun str_nat :: "nat \<Rightarrow> string" where
  "str_nat n = (if n < 10 then [digit_chr n] else str_nat (n div 10) @ [digit_chr (n mod 10)])"

declare str_nat.simps [simp del]

definition str :: "int \<Rightarrow> string" where
  "str x = (if x < 0 then CHR ''-'' # str_nat (nat (- x)) else str_nat (nat x))"

text \<open>\<^verbatim>\<open>sep.join(xs)\<close>: the elements of \<open>xs\<close> with \<open>sep\<close> between neighbours.\<close>

fun join :: "string \<Rightarrow> string list \<Rightarrow> string" where
  "join sep [] = []"
| "join sep [x] = x"
| "join sep (x # y # ys) = x @ sep @ join sep (y # ys)"

text \<open>
  \<^verbatim>\<open>xs[:n]\<close>: the first \<open>n\<close> elements, all of \<open>xs\<close> when it is shorter; a negative
  \<open>n\<close> counts from the end, so that the last \<open>-n\<close> elements are dropped.
\<close>

definition slice_to :: "'a list \<Rightarrow> int \<Rightarrow> 'a list" where
  "slice_to xs n = (if n < 0 then take (length xs - nat (- n)) xs else take (nat n) xs)"

section \<open>The Masscan task\<close>

text \<open>
  The task object: the luigi parameters \<open>target_file\<close> (inherited from \<^verbatim>\<open>TargetList\<close>),
  \<open>rate\<close>, \<open>interface\<close>, \<open>top_ports\<close> (an \<^verbatim>\<open>IntParameter\<close>) and \<open>ports\<close>,
  and the attribute \<open>masscan_output\<close> that \<^verbatim>\<open>__init__\<close> sets.
\<close>

record masscan =
  target_file :: string
  rate :: string
  interface :: string
  top_ports :: int
  ports :: string
  masscan_output :: string

text \<open>
  \<^verbatim>\<open>__init__\<close>: the parameters are stored and
  \<^verbatim>\<open>self.masscan_output = f"masscan.{self.target_file}.json"\<close>.
\<close>

definition Masscan_init :: "string \<Rightarrow> string \<Rightarrow> string \<Rightarrow> int \<Rightarrow> string \<Rightarrow> masscan" where
  "Masscan_init tf r i tp p =
     \<lparr>target_file = tf, rate = r, interface = i, top_ports = tp, ports = p,
      masscan_output = ''masscan.'' @ tf @ ''.json''\<rparr>"

text \<open>
  \<^verbatim>\<open>output\<close>: the local target at \<open>masscan_output\<close>, identified with its path
  (\<open>output\<close> is a keyword of Isabelle, hence the suffix).
\<close>

definition output_target :: "masscan \<Rightarrow> string" where
  "output_target self = masscan_output self"

text \<open>\<^verbatim>\<open>exit(n)\<close> raises \<^verbatim>\<open>SystemExit(n)\<close>; \<open>n\<close> is the exit status of the process.\<close>

datatype error = SystemExit int

text \<open>
  \<^verbatim>\<open>program_args\<close>. A string is true when it is not empty, an integer when it is not
  zero. The method assigns to \<open>self.ports\<close> and \<open>self.top_ports\<close>, so the model returns
  the command together with the task as the call leaves it.

  Three values come from outside this file and are parameters of the model:
  \<open>top_tcp_ports\<close> and \<open>top_udp_ports\<close> of \<^verbatim>\<open>recon.config\<close>, and
  \<open>target_list_path\<close>, the value of \<^verbatim>\<open>self.input().get("target_list").path\<close>.
  Modelled from the spec: the element type of the two catalogs, which the specification
  describes as ordered sequences of port numbers.
\<close>

definition program_args ::
  "int list \<Rightarrow> int list \<Rightarrow> string \<Rightarrow> masscan \<Rightarrow> error + (string list \<times> masscan)" where
  "program_args top_tcp_ports top_udp_ports target_list_path self =
     (if ports self \<noteq> [] \<and> top_ports self \<noteq> 0 then Inl (SystemExit 1)
      else if ports self = [] \<and> top_ports self = 0 then Inl (SystemExit 2)
      else if top_ports self < 0 then Inl (SystemExit 3)
      else
        let self' =
              (if top_ports self \<noteq> 0 then
                 let top_tcp_ports_str = join '','' (map str (slice_to top_tcp_ports (top_ports self)));
                     top_udp_ports_str = join '','' (map str (slice_to top_udp_ports (top_ports self)))
                 in self\<lparr>ports := top_tcp_ports_str @ '',U:'' @ top_udp_ports_str, top_ports := 0\<rparr>
               else self)
        in Inr ([''masscan'', ''-v'', ''--open'', ''--banners'',
                 ''--rate'', rate self',
                 ''-e'', interface self',
                 ''-oJ'', masscan_output self',
                 ''--ports'', ports self',
                 ''-iL'', target_list_path],
                self'))"

text \<open>
  The method is called on one object any number of times (luigi calls it when it runs the
  task, and any other caller may call it again). \<open>program_args_again k\<close> is the result of the call that
  follows \<open>k\<close> earlier calls on the same object, with the catalogs and the target list
  unchanged; an exit in an earlier call ends the run.
\<close>

fun program_args_again ::
  "nat \<Rightarrow> int list \<Rightarrow> int list \<Rightarrow> string \<Rightarrow> masscan \<Rightarrow> error + (string list \<times> masscan)" where
  "program_args_again 0 top_tcp_ports top_udp_ports target_list_path self =
     program_args top_tcp_ports top_udp_ports target_list_path self"
| "program_args_again (Suc k) top_tcp_ports top_udp_ports target_list_path self =
     (case program_args top_tcp_ports top_udp_ports target_list_path self of
        Inl e \<Rightarrow> Inl e
      | Inr (command, self') \<Rightarrow>
          program_args_again k top_tcp_ports top_udp_ports target_list_path self')"

section \<open>Facts about the primitives\<close>

lemma digit_chr_not_comma: "d < 10 \<Longrightarrow> digit_chr d \<noteq> CHR '',''"
proof -
  assume "d < 10"
  then have "d \<in> {0, 1, 2, 3, 4, 5, 6, 7, 8, 9}" by auto
  then show ?thesis by (auto simp: digit_chr_def)
qed

lemma str_nat_no_comma: "CHR '','' \<notin> set (str_nat n)"
proof (induction n rule: str_nat.induct)
  case (1 n)
  show ?case
  proof (cases "n < 10")
    case True
    then show ?thesis
      using digit_chr_not_comma [of n] by (subst str_nat.simps) auto
  next
    case False
    with 1 have "CHR '','' \<notin> set (str_nat (n div 10))" by simp
    moreover have "digit_chr (n mod 10) \<noteq> CHR '',''"
      by (rule digit_chr_not_comma) simp
    ultimately show ?thesis
      using False by (subst str_nat.simps) auto
  qed
qed

lemma str_no_comma: "CHR '','' \<notin> set (str x)"
  by (simp add: str_def str_nat_no_comma)

lemma commas_join:
  "\<forall>x \<in> set xs. c \<notin> set x \<Longrightarrow> length (filter (\<lambda>a. a = c) (join [c] xs)) = length xs - 1"
  by (induction "[c]" xs rule: join.induct) (auto simp: filter_empty_conv)

lemma commas_join_str:
  "length (filter (\<lambda>a. a = CHR '','') (join '','' (map str xs))) = length xs - 1"
  using commas_join [of "map str xs" "CHR '',''"] by (simp add: str_no_comma)

lemma slice_to_pos: "0 < n \<Longrightarrow> slice_to xs n = take (nat n) xs"
  by (simp add: slice_to_def)

section \<open>Facts about \<open>program_args\<close>\<close>

lemma program_args_top_ports:
  assumes "0 < top_ports self" and "ports self = []"
  shows "program_args tcp udp path self =
     Inr ([''masscan'', ''-v'', ''--open'', ''--banners'', ''--rate'', rate self,
           ''-e'', interface self, ''-oJ'', masscan_output self,
           ''--ports'',
           join '','' (map str (take (nat (top_ports self)) tcp)) @ '',U:'' @
             join '','' (map str (take (nat (top_ports self)) udp)),
           ''-iL'', path],
          self\<lparr>ports := join '','' (map str (take (nat (top_ports self)) tcp)) @ '',U:'' @
                   join '','' (map str (take (nat (top_ports self)) udp)),
               top_ports := 0\<rparr>)"
  using assms by (simp add: program_args_def slice_to_pos Let_def)

lemma program_args_ports:
  assumes "ports self \<noteq> []" and "top_ports self = 0"
  shows "program_args tcp udp path self =
     Inr ([''masscan'', ''-v'', ''--open'', ''--banners'', ''--rate'', rate self,
           ''-e'', interface self, ''-oJ'', masscan_output self,
           ''--ports'', ports self, ''-iL'', path],
          self)"
  using assms by (simp add: program_args_def)

lemma program_args_Inr_cases:
  assumes "program_args tcp udp path self = Inr (cmd, self')"
  shows "(0 < top_ports self \<and> ports self = []) \<or> (ports self \<noteq> [] \<and> top_ports self = 0)"
  using assms by (auto simp: program_args_def split: if_splits)

lemma program_args_stable:
  assumes "program_args tcp udp path self = Inr (cmd, self')"
  shows "program_args tcp udp path self' = Inr (cmd, self')"
proof -
  from assms consider
    (top) "0 < top_ports self" "ports self = []" | (explicit) "ports self \<noteq> []" "top_ports self = 0"
    using program_args_Inr_cases by blast
  then show ?thesis
  proof cases
    case top
    from program_args_top_ports [OF top, of tcp udp path] assms
    have cmd: "cmd = [''masscan'', ''-v'', ''--open'', ''--banners'', ''--rate'', rate self,
           ''-e'', interface self, ''-oJ'', masscan_output self,
           ''--ports'',
           join '','' (map str (take (nat (top_ports self)) tcp)) @ '',U:'' @
             join '','' (map str (take (nat (top_ports self)) udp)),
           ''-iL'', path]"
      and self': "self' = self\<lparr>ports := join '','' (map str (take (nat (top_ports self)) tcp)) @ '',U:'' @
                   join '','' (map str (take (nat (top_ports self)) udp)),
               top_ports := 0\<rparr>"
      by simp_all
    have "ports self' \<noteq> []" and "top_ports self' = 0"
      by (simp_all add: self')
    from program_args_ports [OF this, of tcp udp path] show ?thesis
      by (simp add: cmd self')
  next
    case explicit
    from program_args_ports [OF explicit, of tcp udp path] assms show ?thesis
      by simp
  qed
qed

lemma program_args_again_stable:
  assumes "program_args tcp udp path self = Inr (cmd, self')"
  shows "program_args_again k tcp udp path self = Inr (cmd, self')"
  using assms
proof (induction k arbitrary: self)
  case 0
  then show ?case by simp
next
  case (Suc k)
  from Suc.prems have "program_args tcp udp path self' = Inr (cmd, self')"
    by (rule program_args_stable)
  then have "program_args_again k tcp udp path self' = Inr (cmd, self')"
    by (rule Suc.IH)
  with Suc.prems show ?case by simp
qed

section \<open>Resolution of \<open>top_ports\<close>\<close>

text \<open>
  C1. When \<open>top_ports\<close> is positive and \<open>ports\<close> is empty, \<open>program_args\<close> succeeds
  and the resolved port specification (the \<open>ports\<close> attribute after the call, which is
  also the value after \<open>--ports\<close> in the command) is the TCP segment, then \<open>,U:\<close>,
  then the UDP segment. Each segment is the comma-joined decimal rendering of the first
  \<open>top_ports\<close> catalog entries in catalog order; it has \<open>min top_ports (length catalog)\<close>
  entries, and since no entry contains a comma it has one comma less than entries. With an
  empty UDP catalog the specification still ends in \<open>,U:\<close>.
\<close>

theorem C1_top_ports_resolved:
  assumes "0 < top_ports self" and "ports self = []"
  shows "\<exists>command self'.
     program_args tcp udp path self = Inr (command, self') \<and>
     ports self' = join '','' (map str (take (nat (top_ports self)) tcp)) @ '',U:'' @
                   join '','' (map str (take (nat (top_ports self)) udp)) \<and>
     command ! 11 = ports self' \<and>
     length (take (nat (top_ports self)) tcp) = min (nat (top_ports self)) (length tcp) \<and>
     length (take (nat (top_ports self)) udp) = min (nat (top_ports self)) (length udp) \<and>
     length (filter (\<lambda>c. c = CHR '','') (join '','' (map str (take (nat (top_ports self)) tcp))))
       = min (nat (top_ports self)) (length tcp) - 1 \<and>
     length (filter (\<lambda>c. c = CHR '','') (join '','' (map str (take (nat (top_ports self)) udp))))
       = min (nat (top_ports self)) (length udp) - 1 \<and>
     (udp = [] \<longrightarrow>
        ports self' = join '','' (map str (take (nat (top_ports self)) tcp)) @ '',U:'')"
proof -
  have "length (filter (\<lambda>c. c = CHR '','') (join '','' (map str (take (nat (top_ports self)) tcp))))
       = min (nat (top_ports self)) (length tcp) - 1"
    by (simp only: commas_join_str length_take min.commute)
  moreover
  have "length (filter (\<lambda>c. c = CHR '','') (join '','' (map str (take (nat (top_ports self)) udp))))
       = min (nat (top_ports self)) (length udp) - 1"
    by (simp only: commas_join_str length_take min.commute)
  ultimately show ?thesis
    using program_args_top_ports [OF assms, of tcp udp path]
    by (simp add: min.commute)
qed

theorem C1_top_ports_resolved_witness:
  "0 < top_ports (Masscan_init ''acme'' ''1000'' ''tun0'' 3 []) \<and>
   ports (Masscan_init ''acme'' ''1000'' ''tun0'' 3 []) = [] \<and>
   (\<exists>command self'.
      program_args [80, 443, 22, 21] [53, 161, 123, 500] ''acme.ips''
        (Masscan_init ''acme'' ''1000'' ''tun0'' 3 []) = Inr (command, self') \<and>
      ports self' = ''80,443,22,U:53,161,123'' \<and> command ! 11 = ''80,443,22,U:53,161,123'') \<and>
   (\<exists>command self'.
      program_args [80, 443] [] ''acme.ips''
        (Masscan_init ''acme'' ''1000'' ''tun0'' 3 []) = Inr (command, self') \<and>
      ports self' = ''80,443,U:'' \<and> command ! 11 = ''80,443,U:'')"
proof -
  have s: "str 80 = ''80''" "str 443 = ''443''" "str 22 = ''22''"
    "str 53 = ''53''" "str 161 = ''161''" "str 123 = ''123''"
    by (simp_all add: str_def str_nat.simps digit_chr_def)
  show ?thesis
    using C1_top_ports_resolved [of "Masscan_init ''acme'' ''1000'' ''tun0'' 3 []"
        "[80, 443, 22, 21]" "[53, 161, 123, 500]" "''acme.ips''"]
      C1_top_ports_resolved [of "Masscan_init ''acme'' ''1000'' ''tun0'' 3 []"
        "[80, 443]" "[]" "''acme.ips''"]
    by (auto simp: Masscan_init_def s)
qed

section \<open>Negative count\<close>

text \<open>
  The check of a negative \<open>top_ports\<close> is the third guard of \<open>program_args\<close>. The
  first guard tests \<open>self.ports and self.top_ports\<close>, and a negative integer is true:
  with \<open>ports = "80"\<close> and \<open>top_ports = -1\<close> the method leaves with status 1, not 3.
\<close>

theorem C2_negative_before_ports_counterexample:
  "top_ports (Masscan_init ''acme'' ''1000'' ''tun0'' (- 1) ''80'') < 0 \<and>
   program_args [80, 443, 22] [53, 161, 123] ''acme.ips''
     (Masscan_init ''acme'' ''1000'' ''tun0'' (- 1) ''80'') = Inl (SystemExit 1) \<and>
   program_args [80, 443, 22] [53, 161, 123] ''acme.ips''
     (Masscan_init ''acme'' ''1000'' ''tun0'' (- 1) ''80'') \<noteq> Inl (SystemExit 3)"
  by (simp add: program_args_def Masscan_init_def)

text \<open>
  C2, as the code has it. When \<open>top_ports\<close> is negative, \<open>program_args\<close> always fails:
  with exit status 3 when \<open>ports\<close> is empty, and with exit status 1 (the status of a
  conflicting specification) when \<open>ports\<close> is not empty, since the test for both
  parameters being given comes first.
\<close>

theorem C2_negative_count:
  assumes "top_ports self < 0"
  shows "program_args tcp udp path self =
           Inl (SystemExit (if ports self = [] then 3 else 1))"
  using assms by (simp add: program_args_def)

theorem C2_negative_count_witness:
  "top_ports (Masscan_init ''acme'' ''1000'' ''tun0'' (- 5) []) < 0 \<and>
   program_args [80, 443, 22] [53, 161, 123] ''acme.ips''
     (Masscan_init ''acme'' ''1000'' ''tun0'' (- 5) []) = Inl (SystemExit 3) \<and>
   top_ports (Masscan_init ''acme'' ''1000'' ''tun0'' (- 5) ''80,443'') < 0 \<and>
   program_args [80, 443, 22] [53, 161, 123] ''acme.ips''
     (Masscan_init ''acme'' ''1000'' ''tun0'' (- 5) ''80,443'') = Inl (SystemExit 1)"
  using C2_negative_count [of "Masscan_init ''acme'' ''1000'' ''tun0'' (- 5) []"
      "[80, 443, 22]" "[53, 161, 123]" "''acme.ips''"]
    C2_negative_count [of "Masscan_init ''acme'' ''1000'' ''tun0'' (- 5) ''80,443''"
      "[80, 443, 22]" "[53, 161, 123]" "''acme.ips''"]
  by (simp add: Masscan_init_def)

section \<open>The output path\<close>

text \<open>
  \<^verbatim>\<open>__init__\<close> names the output \<^verbatim>\<open>masscan.TARGET_FILE.json\<close>, as the docstring of
  \<^verbatim>\<open>output\<close> says: for the target file \<open>acme\<close> the path is \<open>masscan.acme.json\<close>, not
  \<open>scan.acme.json\<close>.
\<close>

theorem C3_output_path_counterexample:
  "output_target (Masscan_init ''acme'' ''1000'' ''tun0'' 3 []) = ''masscan.acme.json'' \<and>
   output_target (Masscan_init ''acme'' ''1000'' ''tun0'' 3 []) \<noteq> ''scan.acme.json''"
  by (simp add: output_target_def Masscan_init_def)

text \<open>
  C3, as the code has it. The output path is \<open>masscan.\<close>, the target file identifier and
  \<open>.json\<close>: it depends on no other parameter, so equal identifiers give equal paths.
  It is set by \<^verbatim>\<open>__init__\<close> and a successful \<open>program_args\<close> leaves it as it was and
  puts it after \<open>-oJ\<close>. For the identifier \<open>acme\<close> it is \<open>masscan.acme.json\<close>.
\<close>

theorem C3_output_path:
  "output_target (Masscan_init tf r i tp p) = ''masscan.'' @ tf @ ''.json'' \<and>
   output_target (Masscan_init tf r i tp p) = output_target (Masscan_init tf r' i' tp' p') \<and>
   (program_args tcp udp path self = Inr (command, self') \<longrightarrow>
      output_target self' = output_target self \<and> command ! 9 = output_target self) \<and>
   output_target (Masscan_init ''acme'' r i tp p) = ''masscan.acme.json''"
proof -
  have "output_target self' = output_target self \<and> command ! 9 = output_target self"
    if "program_args tcp udp path self = Inr (command, self')"
    using that by (auto simp: program_args_def output_target_def Let_def split: if_splits)
  then show ?thesis
    by (simp add: output_target_def Masscan_init_def)
qed

theorem C3_output_path_witness:
  "program_args [80, 443, 22, 21] [53, 161, 123, 500] ''acme.ips''
     (Masscan_init ''acme'' ''1000'' ''tun0'' 3 []) =
   Inr ([''masscan'', ''-v'', ''--open'', ''--banners'', ''--rate'', ''1000'', ''-e'', ''tun0'',
         ''-oJ'', ''masscan.acme.json'', ''--ports'', ''80,443,22,U:53,161,123'',
         ''-iL'', ''acme.ips''],
        (Masscan_init ''acme'' ''1000'' ''tun0'' 0 ''80,443,22,U:53,161,123'')) \<and>
   output_target (Masscan_init ''acme'' ''1000'' ''tun0'' 0 ''80,443,22,U:53,161,123'') =
     output_target (Masscan_init ''acme'' ''1000'' ''tun0'' 3 []) \<and>
   output_target (Masscan_init ''acme'' ''1000'' ''tun0'' 3 []) = ''masscan.acme.json''"
proof -
  have s: "str 80 = ''80''" "str 443 = ''443''" "str 22 = ''22''"
    "str 53 = ''53''" "str 161 = ''161''" "str 123 = ''123''"
    by (simp_all add: str_def str_nat.simps digit_chr_def)
  have run: "program_args [80, 443, 22, 21] [53, 161, 123, 500] ''acme.ips''
     (Masscan_init ''acme'' ''1000'' ''tun0'' 3 []) =
   Inr ([''masscan'', ''-v'', ''--open'', ''--banners'', ''--rate'', ''1000'', ''-e'', ''tun0'',
         ''-oJ'', ''masscan.acme.json'', ''--ports'', ''80,443,22,U:53,161,123'',
         ''-iL'', ''acme.ips''],
        (Masscan_init ''acme'' ''1000'' ''tun0'' 0 ''80,443,22,U:53,161,123''))"
    by (simp add: program_args_def Masscan_init_def slice_to_def s)
  from C3_output_path [of "''acme''" "''1000''" "''tun0''" 3 "[]" "''1000''" "''tun0''" 0
      "''80,443,22,U:53,161,123''" "[80, 443, 22, 21]" "[53, 161, 123, 500]" "''acme.ips''"
      "Masscan_init ''acme'' ''1000'' ''tun0'' 3 []" _
      "Masscan_init ''acme'' ''1000'' ''tun0'' 0 ''80,443,22,U:53,161,123''"] run
  show ?thesis by simp
qed

section \<open>Conflicting port specification\<close>

text \<open>
  C4. When \<open>ports\<close> is not empty and \<open>top_ports\<close> is positive, \<open>program_args\<close> fails with
  exit status 1, whatever the other parameters, the catalogs and the target list path are.
  It returns no command, so there is nothing to launch.
\<close>

theorem C4_conflicting_port_spec:
  assumes "ports self \<noteq> []" and "0 < top_ports self"
  shows "program_args tcp udp path self = Inl (SystemExit 1) \<and>
         (\<nexists>command self'. program_args tcp udp path self = Inr (command, self'))"
  using assms by (simp add: program_args_def)

theorem C4_conflicting_port_spec_witness:
  "ports (Masscan_init ''acme'' ''1000'' ''tun0'' 5 ''80'') \<noteq> [] \<and>
   0 < top_ports (Masscan_init ''acme'' ''1000'' ''tun0'' 5 ''80'') \<and>
   program_args [80, 443, 22] [53, 161, 123] ''acme.ips''
     (Masscan_init ''acme'' ''1000'' ''tun0'' 5 ''80'') = Inl (SystemExit 1)"
  using C4_conflicting_port_spec [of "Masscan_init ''acme'' ''1000'' ''tun0'' 5 ''80''"
      "[80, 443, 22]" "[53, 161, 123]" "''acme.ips''"]
  by (simp add: Masscan_init_def)

section \<open>Missing port specification\<close>

text \<open>
  C5. When \<open>ports\<close> is empty and \<open>top_ports\<close> is 0, \<open>program_args\<close> fails with exit
  status 2, whatever the other parameters, the catalogs and the target list path are.
\<close>

theorem C5_missing_port_spec:
  assumes "ports self = []" and "top_ports self = 0"
  shows "program_args tcp udp path self = Inl (SystemExit 2)"
  using assms by (simp add: program_args_def)

theorem C5_missing_port_spec_witness:
  "ports (Masscan_init ''acme'' ''1000'' ''tun0'' 0 []) = [] \<and>
   top_ports (Masscan_init ''acme'' ''1000'' ''tun0'' 0 []) = 0 \<and>
   program_args [80, 443, 22] [53, 161, 123] ''acme.ips''
     (Masscan_init ''acme'' ''1000'' ''tun0'' 0 []) = Inl (SystemExit 2)"
  using C5_missing_port_spec [of "Masscan_init ''acme'' ''1000'' ''tun0'' 0 []"
      "[80, 443, 22]" "[53, 161, 123]" "''acme.ips''"]
  by (simp add: Masscan_init_def)

section \<open>Explicit ports\<close>

text \<open>
  C6. When \<open>ports\<close> is not empty and \<open>top_ports\<close> is 0, \<open>program_args\<close> succeeds, the
  value after \<open>--ports\<close> is the \<open>ports\<close> string itself, whatever its characters are, and
  the task is left as it was.
\<close>

theorem C6_explicit_ports_unchanged:
  assumes "ports self \<noteq> []" and "top_ports self = 0"
  shows "program_args tcp udp path self =
     Inr ([''masscan'', ''-v'', ''--open'', ''--banners'', ''--rate'', rate self,
           ''-e'', interface self, ''-oJ'', masscan_output self,
           ''--ports'', ports self, ''-iL'', path],
          self)"
  using assms by (rule program_args_ports)

theorem C6_explicit_ports_unchanged_witness:
  "ports (Masscan_init ''acme'' ''1000'' ''tun0'' 0 ''80,443'') \<noteq> [] \<and>
   top_ports (Masscan_init ''acme'' ''1000'' ''tun0'' 0 ''80,443'') = 0 \<and>
   program_args [80, 443, 22] [53, 161, 123] ''acme.ips''
     (Masscan_init ''acme'' ''1000'' ''tun0'' 0 ''80,443'') =
   Inr ([''masscan'', ''-v'', ''--open'', ''--banners'', ''--rate'', ''1000'', ''-e'', ''tun0'',
         ''-oJ'', ''masscan.acme.json'', ''--ports'', ''80,443'', ''-iL'', ''acme.ips''],
        Masscan_init ''acme'' ''1000'' ''tun0'' 0 ''80,443'') \<and>
   program_args [80, 443, 22] [53, 161, 123] ''acme.ips''
     (Masscan_init ''acme'' ''1000'' ''tun0'' 0 ''no port, -x'') =
   Inr ([''masscan'', ''-v'', ''--open'', ''--banners'', ''--rate'', ''1000'', ''-e'', ''tun0'',
         ''-oJ'', ''masscan.acme.json'', ''--ports'', ''no port, -x'', ''-iL'', ''acme.ips''],
        Masscan_init ''acme'' ''1000'' ''tun0'' 0 ''no port, -x'')"
  using C6_explicit_ports_unchanged [of "Masscan_init ''acme'' ''1000'' ''tun0'' 0 ''80,443''"
      "[80, 443, 22]" "[53, 161, 123]" "''acme.ips''"]
    C6_explicit_ports_unchanged [of "Masscan_init ''acme'' ''1000'' ''tun0'' 0 ''no port, -x''"
      "[80, 443, 22]" "[53, 161, 123]" "''acme.ips''"]
  by (simp add: Masscan_init_def)

section \<open>Exit statuses\<close>

text \<open>
  The status of a negative \<open>top_ports\<close> is not its own in every run. With
  \<open>ports = "80"\<close> and \<open>top_ports = -2\<close> nothing but the count is wrong (\<open>top_ports\<close> is
  not positive, so the two parameters do not conflict in the specification's sense), yet
  the first guard fires and the exit status is 1, the status that the conflicting
  \<open>ports = "80"\<close>, \<open>top_ports = 5\<close> gets.
\<close>

theorem C7_negative_count_status_counterexample:
  "top_ports (Masscan_init ''acme'' ''1000'' ''tun0'' (- 2) ''80'') < 0 \<and>
   \<not> 0 < top_ports (Masscan_init ''acme'' ''1000'' ''tun0'' (- 2) ''80'') \<and>
   program_args [80, 443, 22] [53, 161, 123] ''acme.ips''
     (Masscan_init ''acme'' ''1000'' ''tun0'' (- 2) ''80'') = Inl (SystemExit 1) \<and>
   ports (Masscan_init ''acme'' ''1000'' ''tun0'' 5 ''80'') \<noteq> [] \<and>
   0 < top_ports (Masscan_init ''acme'' ''1000'' ''tun0'' 5 ''80'') \<and>
   program_args [80, 443, 22] [53, 161, 123] ''acme.ips''
     (Masscan_init ''acme'' ''1000'' ''tun0'' 5 ''80'') = Inl (SystemExit 1)"
  by (simp add: program_args_def Masscan_init_def)

text \<open>
  C7, as the code has it. \<open>program_args\<close> has three error exits, one per guard: both
  parameters given (\<open>ports\<close> not empty and \<open>top_ports\<close> not zero, a negative count
  included) with status 1, neither given with status 2, a negative \<open>top_ports\<close> with
  \<open>ports\<close> empty with status 3. The three statuses differ from each other and from 0,
  and no other status occurs. An error result carries no command: whenever a command is
  returned, \<open>top_ports\<close> is not negative and exactly one of \<open>ports\<close> and \<open>top_ports\<close>
  was given.
\<close>

theorem C7_configuration_violations:
  "(ports self \<noteq> [] \<and> top_ports self \<noteq> 0 \<longrightarrow>
      program_args tcp udp path self = Inl (SystemExit 1)) \<and>
   (ports self = [] \<and> top_ports self = 0 \<longrightarrow>
      program_args tcp udp path self = Inl (SystemExit 2)) \<and>
   (ports self = [] \<and> top_ports self < 0 \<longrightarrow>
      program_args tcp udp path self = Inl (SystemExit 3)) \<and>
   (\<forall>n. program_args tcp udp path self = Inl (SystemExit n) \<longrightarrow> n \<in> {1, 2, 3}) \<and>
   (\<forall>command self'. program_args tcp udp path self = Inr (command, self') \<longrightarrow>
      0 \<le> top_ports self \<and> (ports self = [] \<longleftrightarrow> 0 < top_ports self)) \<and>
   distinct [SystemExit 0, SystemExit 1, SystemExit 2, SystemExit 3]"
proof -
  have conflicting: "program_args tcp udp path self = Inl (SystemExit 1)"
    if "ports self \<noteq> []" and "top_ports self \<noteq> 0"
    using that by (simp add: program_args_def)
  have missing: "program_args tcp udp path self = Inl (SystemExit 2)"
    if "ports self = []" and "top_ports self = 0"
    using that by (simp add: program_args_def)
  have negative: "program_args tcp udp path self = Inl (SystemExit 3)"
    if "ports self = []" and "top_ports self < 0"
    using that by (simp add: program_args_def)
  have statuses: "n \<in> {1, 2, 3}"
    if "program_args tcp udp path self = Inl (SystemExit n)" for n
    using that by (simp add: program_args_def Let_def split: if_splits)
  have success: "0 \<le> top_ports self \<and> (ports self = [] \<longleftrightarrow> 0 < top_ports self)"
    if "program_args tcp udp path self = Inr (command, self')" for command self'
    using program_args_Inr_cases [OF that] by auto
  have "distinct [SystemExit 0, SystemExit 1, SystemExit 2, SystemExit 3]"
    by simp
  with conflicting missing negative statuses success show ?thesis
    by blast
qed

theorem C7_configuration_violations_witness:
  "program_args [80, 443, 22] [53, 161, 123] ''acme.ips''
     (Masscan_init ''acme'' ''1000'' ''tun0'' 5 ''80'') = Inl (SystemExit 1) \<and>
   program_args [80, 443, 22] [53, 161, 123] ''acme.ips''
     (Masscan_init ''acme'' ''1000'' ''tun0'' 0 []) = Inl (SystemExit 2) \<and>
   program_args [80, 443, 22] [53, 161, 123] ''acme.ips''
     (Masscan_init ''acme'' ''1000'' ''tun0'' (- 2) []) = Inl (SystemExit 3) \<and>
   program_args [80, 443, 22] [53, 161, 123] ''acme.ips''
     (Masscan_init ''acme'' ''1000'' ''tun0'' (- 2) ''80'') = Inl (SystemExit 1)"
  using C7_configuration_violations [of "Masscan_init ''acme'' ''1000'' ''tun0'' 5 ''80''"
      "[80, 443, 22]" "[53, 161, 123]" "''acme.ips''"]
    C7_configuration_violations [of "Masscan_init ''acme'' ''1000'' ''tun0'' 0 []"
      "[80, 443, 22]" "[53, 161, 123]" "''acme.ips''"]
    C7_configuration_violations [of "Masscan_init ''acme'' ''1000'' ''tun0'' (- 2) []"
      "[80, 443, 22]" "[53, 161, 123]" "''acme.ips''"]
    C7_configuration_violations [of "Masscan_init ''acme'' ''1000'' ''tun0'' (- 2) ''80''"
      "[80, 443, 22]" "[53, 161, 123]" "''acme.ips''"]
  by (simp add: Masscan_init_def)

section \<open>The command vector\<close>

text \<open>
  C8. When a call of \<open>program_args\<close> succeeds, a second call on the object as the first
  call left it returns the same command and leaves the object as it is, and so does the
  call after any number \<open>k\<close> of calls. The command is four fixed elements followed by
  five pairs of a flag and its value: \<open>--rate\<close>, \<open>-e\<close>, \<open>-oJ\<close>, \<open>--ports\<close>, \<open>-iL\<close>, each
  directly followed by one value.
\<close>

theorem C8_deterministic_command:
  assumes "program_args tcp udp path self = Inr (command, self')"
  shows "program_args tcp udp path self' = Inr (command, self') \<and>
     program_args_again k tcp udp path self = Inr (command, self') \<and>
     command = [''masscan'', ''-v'', ''--open'', ''--banners''] @
       concat (map (\<lambda>(flag, v). [flag, v])
         [(''--rate'', rate self), (''-e'', interface self), (''-oJ'', masscan_output self),
          (''--ports'', ports self'), (''-iL'', path)])"
proof -
  have "command = [''masscan'', ''-v'', ''--open'', ''--banners''] @
       concat (map (\<lambda>(flag, v). [flag, v])
         [(''--rate'', rate self), (''-e'', interface self), (''-oJ'', masscan_output self),
          (''--ports'', ports self'), (''-iL'', path)])"
    using assms by (auto simp: program_args_def Let_def split: if_splits)
  with program_args_stable [OF assms] program_args_again_stable [OF assms, of k]
  show ?thesis by simp
qed

theorem C8_deterministic_command_witness:
  "program_args [80, 443, 22, 21] [53, 161, 123, 500] ''acme.ips''
     (Masscan_init ''acme'' ''1000'' ''tun0'' 3 []) =
   Inr ([''masscan'', ''-v'', ''--open'', ''--banners'', ''--rate'', ''1000'', ''-e'', ''tun0'',
         ''-oJ'', ''masscan.acme.json'', ''--ports'', ''80,443,22,U:53,161,123'',
         ''-iL'', ''acme.ips''],
        Masscan_init ''acme'' ''1000'' ''tun0'' 0 ''80,443,22,U:53,161,123'') \<and>
   program_args [80, 443, 22, 21] [53, 161, 123, 500] ''acme.ips''
     (Masscan_init ''acme'' ''1000'' ''tun0'' 0 ''80,443,22,U:53,161,123'') =
   Inr ([''masscan'', ''-v'', ''--open'', ''--banners'', ''--rate'', ''1000'', ''-e'', ''tun0'',
         ''-oJ'', ''masscan.acme.json'', ''--ports'', ''80,443,22,U:53,161,123'',
         ''-iL'', ''acme.ips''],
        Masscan_init ''acme'' ''1000'' ''tun0'' 0 ''80,443,22,U:53,161,123'') \<and>
   program_args_again 2 [80, 443, 22, 21] [53, 161, 123, 500] ''acme.ips''
     (Masscan_init ''acme'' ''1000'' ''tun0'' 3 []) =
   Inr ([''masscan'', ''-v'', ''--open'', ''--banners'', ''--rate'', ''1000'', ''-e'', ''tun0'',
         ''-oJ'', ''masscan.acme.json'', ''--ports'', ''80,443,22,U:53,161,123'',
         ''-iL'', ''acme.ips''],
        Masscan_init ''acme'' ''1000'' ''tun0'' 0 ''80,443,22,U:53,161,123'')"
proof -
  have s: "str 80 = ''80''" "str 443 = ''443''" "str 22 = ''22''"
    "str 53 = ''53''" "str 161 = ''161''" "str 123 = ''123''"
    by (simp_all add: str_def str_nat.simps digit_chr_def)
  have run: "program_args [80, 443, 22, 21] [53, 161, 123, 500] ''acme.ips''
     (Masscan_init ''acme'' ''1000'' ''tun0'' 3 []) =
   Inr ([''masscan'', ''-v'', ''--open'', ''--banners'', ''--rate'', ''1000'', ''-e'', ''tun0'',
         ''-oJ'', ''masscan.acme.json'', ''--ports'', ''80,443,22,U:53,161,123'',
         ''-iL'', ''acme.ips''],
        Masscan_init ''acme'' ''1000'' ''tun0'' 0 ''80,443,22,U:53,161,123'')"
    by (simp add: program_args_def Masscan_init_def slice_to_def s)
  from C8_deterministic_command [OF run, of 2] run show ?thesis
    by simp
qed

section \<open>The task after resolution\<close>

text \<open>
  C9. When \<open>top_ports\<close> is positive and \<open>ports\<close> is empty, \<open>program_args\<close> succeeds and
  leaves the task with \<open>top_ports = 0\<close> and with \<open>ports\<close> the resolved expression, which
  is not empty; every other attribute is as before. Every later call returns the same
  command and leaves the task in that same state.
\<close>

theorem C9_single_port_spec_after_resolution:
  assumes "0 < top_ports self" and "ports self = []"
  shows "\<exists>command self'.
     program_args tcp udp path self = Inr (command, self') \<and>
     self' = self\<lparr>ports := join '','' (map str (take (nat (top_ports self)) tcp)) @ '',U:'' @
                      join '','' (map str (take (nat (top_ports self)) udp)),
                  top_ports := 0\<rparr> \<and>
     top_ports self' = 0 \<and> ports self' \<noteq> [] \<and>
     (\<forall>k. program_args_again k tcp udp path self = Inr (command, self'))"
proof -
  from program_args_top_ports [OF assms, of tcp udp path]
  obtain command self' where run: "program_args tcp udp path self = Inr (command, self')"
    and self': "self' = self\<lparr>ports := join '','' (map str (take (nat (top_ports self)) tcp)) @ '',U:'' @
                      join '','' (map str (take (nat (top_ports self)) udp)),
                  top_ports := 0\<rparr>"
    by simp
  have "top_ports self' = 0" and "ports self' \<noteq> []"
    by (simp_all add: self')
  moreover have "\<forall>k. program_args_again k tcp udp path self = Inr (command, self')"
    using program_args_again_stable [OF run] by simp
  ultimately show ?thesis
    using run self' by blast
qed

theorem C9_single_port_spec_after_resolution_witness:
  "0 < top_ports (Masscan_init ''acme'' ''1000'' ''tun0'' 3 []) \<and>
   ports (Masscan_init ''acme'' ''1000'' ''tun0'' 3 []) = [] \<and>
   (\<exists>command.
      program_args [80, 443, 22, 21] [53, 161, 123, 500] ''acme.ips''
        (Masscan_init ''acme'' ''1000'' ''tun0'' 3 []) =
      Inr (command, Masscan_init ''acme'' ''1000'' ''tun0'' 0 ''80,443,22,U:53,161,123'') \<and>
      (\<forall>k. program_args_again k [80, 443, 22, 21] [53, 161, 123, 500] ''acme.ips''
        (Masscan_init ''acme'' ''1000'' ''tun0'' 3 []) =
      Inr (command, Masscan_init ''acme'' ''1000'' ''tun0'' 0 ''80,443,22,U:53,161,123'')))"
proof -
  have s: "str 80 = ''80''" "str 443 = ''443''" "str 22 = ''22''"
    "str 53 = ''53''" "str 161 = ''161''" "str 123 = ''123''"
    by (simp_all add: str_def str_nat.simps digit_chr_def)
  show ?thesis
    using C9_single_port_spec_after_resolution
      [of "Masscan_init ''acme'' ''1000'' ''tun0'' 3 []"
        "[80, 443, 22, 21]" "[53, 161, 123, 500]" "''acme.ips''"]
    by (auto simp: Masscan_init_def s)
qed

text \<open>
  C10. A successful \<open>program_args\<close> returns the 14 elements \<open>masscan\<close>, \<open>-v\<close>, \<open>--open\<close>,
  \<open>--banners\<close>, \<open>--rate\<close>, the rate, \<open>-e\<close>, the interface, \<open>-oJ\<close>, the output path,
  \<open>--ports\<close>, the resolved port specification, \<open>-iL\<close>, the target list path, in this
  order; rate and interface are the parameters as given. The resolved specification is
  \<open>ports\<close> when \<open>top_ports\<close> is 0 and the expression built from the catalogs otherwise.
\<close>

theorem C10_command_vector:
  assumes "program_args tcp udp path self = Inr (command, self')"
  shows "command =
       [''masscan'', ''-v'', ''--open'', ''--banners'', ''--rate'', rate self,
        ''-e'', interface self, ''-oJ'', output_target self,
        ''--ports'', ports self', ''-iL'', path] \<and>
     length command = 14 \<and>
     ports self' =
       (if top_ports self = 0 then ports self
        else join '','' (map str (take (nat (top_ports self)) tcp)) @ '',U:'' @
             join '','' (map str (take (nat (top_ports self)) udp)))"
  using assms
  by (auto simp: program_args_def output_target_def slice_to_pos Let_def split: if_splits)

theorem C10_command_vector_witness:
  "\<exists>command self'.
     program_args [80, 443, 22] [53, 161, 123] ''acme.ips''
       (Masscan_init ''acme'' ''1000'' ''tun0'' 0 ''80,443'') = Inr (command, self') \<and>
     command =
       [''masscan'', ''-v'', ''--open'', ''--banners'', ''--rate'', ''1000'', ''-e'', ''tun0'',
        ''-oJ'', ''masscan.acme.json'', ''--ports'', ''80,443'', ''-iL'', ''acme.ips''] \<and>
     length command = 14"
proof -
  have "\<exists>command self'.
     program_args [80, 443, 22] [53, 161, 123] ''acme.ips''
       (Masscan_init ''acme'' ''1000'' ''tun0'' 0 ''80,443'') = Inr (command, self')"
    by (simp add: program_args_def Masscan_init_def)
  then obtain command self' where run:
    "program_args [80, 443, 22] [53, 161, 123] ''acme.ips''
       (Masscan_init ''acme'' ''1000'' ''tun0'' 0 ''80,443'') = Inr (command, self')"
    by blast
  from C10_command_vector [OF run]
  have "command =
       [''masscan'', ''-v'', ''--open'', ''--banners'', ''--rate'', ''1000'', ''-e'', ''tun0'',
        ''-oJ'', ''masscan.acme.json'', ''--ports'', ''80,443'', ''-iL'', ''acme.ips'']"
    and "length command = 14"
    by (simp_all add: Masscan_init_def output_target_def)
  with run show ?thesis by blast
qed

end
